theory Spec2Isabelle
  imports Main
begin

section \<open>Values, errors and the process state\<close>

text \<open>
  The gateway of \<^verbatim>\<open>src/vtp/web/api/backend.py\<close> is the class \<^verbatim>\<open>VtpBackend\<close>: static
  methods that either answer from checked-in mock data or call into the VoteTrackerPlus
  package (\<^verbatim>\<open>vtp.core.common.Common\<close> and the operations of \<^verbatim>\<open>vtp.ops\<close>).

  Python values that travel through the gateway unexamined (JSON documents, payload
  fields) are \<open>pyval\<close>. A \<^verbatim>\<open>dict\<close> argument is a map from its string keys.
\<close>

datatype pyval =
    PNone
  | PBool bool
  | PInt int
  | PStr string
  | PList "pyval list"
  | PDict "(string \<times> pyval) list"

type_synonym guid = string
type_synonym path = string
type_synonym pydict = "string \<rightharpoonup> pyval"
type_synonym ballot_check = "string list list \<times> int"

text \<open>
  Exceptions are values. The gateway itself raises \<open>KeyError\<close> (a \<^verbatim>\<open>dict\<close> subscript with
  an absent key) and, on the mock paths, the failures of \<^verbatim>\<open>open\<close>, \<^verbatim>\<open>json.load\<close> and
  \<^verbatim>\<open>csv.reader\<close>. \<open>UnknownSession\<close> and \<open>OperationFailure\<close> are raised only by
  VoteTrackerPlus; \<open>OperationFailure\<close> carries the classification the operation gave it.
\<close>

datatype error =
    KeyError string
  | FileNotFoundError path
  | JSONDecodeError path
  | CsvError path
  | UnknownSession guid
  | OperationFailure string

text \<open>
  Every call that leaves the gateway for VoteTrackerPlus, with its arguments. Constructing
  an operation object only stores \<^verbatim>\<open>election_data_dir\<close> and \<^verbatim>\<open>verbosity\<close>, so a call of
  \<^verbatim>\<open>Operation(...).run(...)\<close> is one entry holding the constructor's arguments followed
  by those of \<^verbatim>\<open>run\<close>.
\<close>

datatype call =
    GetGenericRoEdfDir
  | GetGuidBasedEdfDir guid
  | SetupVtpDemoRun path int bool
  | GetAllGuidWorkspaces
  | CastBallotRun path int string bool
  | AcceptBallotRun path int pydict bool
  | VerifyBallotReceiptRun path pyval pyval bool
  | TallyContestsRun path pyval pyval pyval

text \<open>
  The state of the process: the class attribute \<^verbatim>\<open>_MOCK_MODE\<close>, the files the mock paths
  read, the backing store the VoteTrackerPlus calls work on, and the log of those calls.
\<close>

record 's world =
  MOCK_MODE :: bool
  files :: "path \<rightharpoonup> string"
  store :: 's
  calls :: "call list"

text \<open>
  The collaborators are code of other packages, taken as parameters: the two parsers of the
  Python library, and the VoteTrackerPlus entry points as functions on the backing store
  that return a result or an error together with the new store.
\<close>

record pylib =
  json_loads :: "string \<Rightarrow> pyval option"
  csv_rows :: "string \<Rightarrow> string list list option"

record 's vtp =
  get_generic_ro_edf_dir :: "'s \<Rightarrow> (error + path) \<times> 's"
  get_guid_based_edf_dir :: "guid \<Rightarrow> 's \<Rightarrow> (error + path) \<times> 's"
  setup_vtp_demo_operation :: "path \<Rightarrow> int \<Rightarrow> bool \<Rightarrow> 's \<Rightarrow> (error + guid) \<times> 's"
  setup_get_all_guid_workspaces :: "'s \<Rightarrow> (error + guid list) \<times> 's"
  cast_ballot_operation :: "path \<Rightarrow> int \<Rightarrow> string \<Rightarrow> bool \<Rightarrow> 's \<Rightarrow> (error + pyval) \<times> 's"
  accept_ballot_operation ::
    "path \<Rightarrow> int \<Rightarrow> pydict \<Rightarrow> bool \<Rightarrow> 's \<Rightarrow> (error + ballot_check) \<times> 's"
  verify_ballot_receipt_operation ::
    "path \<Rightarrow> pyval \<Rightarrow> pyval \<Rightarrow> bool \<Rightarrow> 's \<Rightarrow> (error + string) \<times> 's"
  tally_contests_operation ::
    "path \<Rightarrow> pyval \<Rightarrow> pyval \<Rightarrow> pyval \<Rightarrow> 's \<Rightarrow> (error + string) \<times> 's"

section \<open>Sequencing with exceptions\<close>

definition returnE :: "'a \<Rightarrow> 'w \<Rightarrow> (error + 'a) \<times> 'w" where
  "returnE a w = (Inr a, w)"

definition raiseE :: "error \<Rightarrow> 'w \<Rightarrow> (error + 'a) \<times> 'w" where
  "raiseE e w = (Inl e, w)"

definition bindE ::
  "('w \<Rightarrow> (error + 'a) \<times> 'w) \<Rightarrow> ('a \<Rightarrow> 'w \<Rightarrow> (error + 'b) \<times> 'w) \<Rightarrow> 'w \<Rightarrow> (error + 'b) \<times> 'w"
  where
  "bindE m f w = (case m w of (Inl e, w') \<Rightarrow> (Inl e, w') | (Inr a, w') \<Rightarrow> f a w')"

text \<open>A call into VoteTrackerPlus runs on the backing store and is appended to the log.\<close>

definition invoke ::
  "call \<Rightarrow> ('s \<Rightarrow> (error + 'a) \<times> 's) \<Rightarrow> 's world \<Rightarrow> (error + 'a) \<times> 's world" where
  "invoke c m w = (case m (store w) of (r, s') \<Rightarrow> (r, w\<lparr>store := s', calls := calls w @ [c]\<rparr>))"

text \<open>\<^verbatim>\<open>d[k]\<close> on a \<^verbatim>\<open>dict\<close>.\<close>

definition subscript :: "pydict \<Rightarrow> string \<Rightarrow> 'w \<Rightarrow> (error + pyval) \<times> 'w" where
  "subscript d k = (case d k of None \<Rightarrow> raiseE (KeyError k) | Some v \<Rightarrow> returnE v)"

text \<open>\<^verbatim>\<open>with open(p, "r", encoding="utf8") as infile\<close> followed by one of the two parsers.\<close>

definition open_file :: "path \<Rightarrow> 's world \<Rightarrow> (error + string) \<times> 's world" where
  "open_file p w = (case files w p of None \<Rightarrow> raiseE (FileNotFoundError p) w | Some txt \<Rightarrow> returnE txt w)"

definition json_load :: "pylib \<Rightarrow> path \<Rightarrow> string \<Rightarrow> 'w \<Rightarrow> (error + pyval) \<times> 'w" where
  "json_load L p txt = (case json_loads L txt of None \<Rightarrow> raiseE (JSONDecodeError p) | Some doc \<Rightarrow> returnE doc)"

definition csv_reader :: "pylib \<Rightarrow> path \<Rightarrow> string \<Rightarrow> 'w \<Rightarrow> (error + string list list) \<times> 'w" where
  "csv_reader L p txt = (case csv_rows L txt of None \<Rightarrow> raiseE (CsvError p) | Some rows \<Rightarrow> returnE rows)"

section \<open>The class VtpBackend\<close>

subsection \<open>Backend demo constants\<close>

definition MOCK_BLANK_BALLOT :: path where
  "MOCK_BLANK_BALLOT = ''mock-data/blank-ballot.json''"

definition MOCK_CAST_BALLOT :: path where
  "MOCK_CAST_BALLOT = ''mock-data/cast-ballot.json''"

definition MOCK_BALLOT_CHECK :: path where
  "MOCK_BALLOT_CHECK = ''mock-data/receipts.26.csv''"

definition MOCK_VOTER_INDEX :: int where
  "MOCK_VOTER_INDEX = 26"

definition MOCK_GUID :: guid where
  "MOCK_GUID = ''01d963fd74100ee3f36428740a8efd8afd781839''"

definition MOCK_VERIFY_BALLOT_RECEIPT_LOG :: string where
  "MOCK_VERIFY_BALLOT_RECEIPT_LOG = ''Hello World''"

definition MOCK_TALLY_CONTESTS_LOG :: string where
  "MOCK_TALLY_CONTESTS_LOG = ''Good Morning''"

definition VERBOSITY :: int where
  "VERBOSITY = 3"

definition ADDRESS :: string where
  "ADDRESS = ''123, Main Street, Concord, Massachusetts''"

subsection \<open>The static methods\<close>

text \<open>Endpoint 1.\<close>

definition get_vote_store_id :: "'s vtp \<Rightarrow> 's world \<Rightarrow> (error + guid) \<times> 's world" where
  "get_vote_store_id V w =
     (if MOCK_MODE w then returnE MOCK_GUID w
      else bindE (invoke GetGenericRoEdfDir (get_generic_ro_edf_dir V))
             (\<lambda>d. invoke (SetupVtpDemoRun d VERBOSITY True)
                    (setup_vtp_demo_operation V d VERBOSITY True)) w)"

text \<open>Endpoint 2.\<close>

definition get_empty_ballot ::
  "pylib \<Rightarrow> 's vtp \<Rightarrow> guid \<Rightarrow> 's world \<Rightarrow> (error + pyval) \<times> 's world" where
  "get_empty_ballot L V vote_store_id w =
     (if MOCK_MODE w then
        bindE (open_file MOCK_BLANK_BALLOT) (json_load L MOCK_BLANK_BALLOT) w
      else bindE (invoke (GetGuidBasedEdfDir vote_store_id) (get_guid_based_edf_dir V vote_store_id))
             (\<lambda>d. invoke (CastBallotRun d VERBOSITY ADDRESS True)
                    (cast_ballot_operation V d VERBOSITY ADDRESS True)) w)"

text \<open>The list of all guid workspaces: no branch on the mode.\<close>

definition get_all_guid_workspaces :: "'s vtp \<Rightarrow> 's world \<Rightarrow> (error + guid list) \<times> 's world" where
  "get_all_guid_workspaces V w = invoke GetAllGuidWorkspaces (setup_get_all_guid_workspaces V) w"

definition mock_get_cast_ballot :: "pylib \<Rightarrow> 's world \<Rightarrow> (error + pyval) \<times> 's world" where
  "mock_get_cast_ballot L w = bindE (open_file MOCK_CAST_BALLOT) (json_load L MOCK_CAST_BALLOT) w"

definition mock_get_ballot_check :: "pylib \<Rightarrow> 's world \<Rightarrow> (error + ballot_check) \<times> 's world" where
  "mock_get_ballot_check L w =
     bindE (bindE (open_file MOCK_BALLOT_CHECK) (csv_reader L MOCK_BALLOT_CHECK))
       (\<lambda>csv_doc. returnE (csv_doc, MOCK_VOTER_INDEX)) w"

text \<open>Endpoint 3.\<close>

definition cast_ballot ::
  "pylib \<Rightarrow> 's vtp \<Rightarrow> guid \<Rightarrow> pydict \<Rightarrow> 's world \<Rightarrow> (error + ballot_check) \<times> 's world" where
  "cast_ballot L V vote_store_id a_cast_ballot w =
     (if MOCK_MODE w then mock_get_ballot_check L w
      else bindE (invoke (GetGuidBasedEdfDir vote_store_id) (get_guid_based_edf_dir V vote_store_id))
             (\<lambda>d. invoke (AcceptBallotRun d VERBOSITY a_cast_ballot True)
                    (accept_ballot_operation V d VERBOSITY a_cast_ballot True)) w)"

text \<open>Endpoint 4. The workspace is resolved first, then the two keys are read, then \<^verbatim>\<open>run\<close>.\<close>

definition verify_ballot_check ::
  "'s vtp \<Rightarrow> guid \<Rightarrow> pydict \<Rightarrow> 's world \<Rightarrow> (error + string) \<times> 's world" where
  "verify_ballot_check V vote_store_id incoming_json w =
     (if MOCK_MODE w then returnE MOCK_VERIFY_BALLOT_RECEIPT_LOG w
      else bindE (invoke (GetGuidBasedEdfDir vote_store_id) (get_guid_based_edf_dir V vote_store_id))
             (\<lambda>d. bindE (subscript incoming_json ''ballot-check'')
               (\<lambda>receipt_data. bindE (subscript incoming_json ''vote-index'')
                 (\<lambda>row. invoke (VerifyBallotReceiptRun d receipt_data row True)
                          (verify_ballot_receipt_operation V d receipt_data row True)))) w)"

text \<open>
  Endpoint 5. The constructor's arguments are evaluated in order (the workspace, then
  \<^verbatim>\<open>incoming_json["verbosity"]\<close>), then the two arguments of \<^verbatim>\<open>run\<close>.
\<close>

definition tally_election_check ::
  "'s vtp \<Rightarrow> guid \<Rightarrow> pydict \<Rightarrow> 's world \<Rightarrow> (error + string) \<times> 's world" where
  "tally_election_check V vote_store_id incoming_json w =
     (if MOCK_MODE w then returnE MOCK_TALLY_CONTESTS_LOG w
      else bindE (invoke (GetGuidBasedEdfDir vote_store_id) (get_guid_based_edf_dir V vote_store_id))
             (\<lambda>d. bindE (subscript incoming_json ''verbosity'')
               (\<lambda>verbosity. bindE (subscript incoming_json ''contest-uids'')
                 (\<lambda>contest_uid. bindE (subscript incoming_json ''track-contests'')
                   (\<lambda>track_contests. invoke (TallyContestsRun d verbosity contest_uid track_contests)
                      (tally_contests_operation V d verbosity contest_uid track_contests))))) w)"

subsection \<open>Sequences of invocations\<close>

text \<open>
  A caller invokes the static methods one after the other; an invocation that raises
  leaves the process in the state it had reached, and the next one starts there.
\<close>

datatype request =
    GetVoteStoreId
  | GetEmptyBallot guid
  | GetAllGuidWorkspacesReq
  | CastBallot guid pydict
  | VerifyBallotCheck guid pydict
  | TallyElectionCheck guid pydict

fun perform :: "pylib \<Rightarrow> 's vtp \<Rightarrow> request \<Rightarrow> 's world \<Rightarrow> 's world" where
  "perform L V GetVoteStoreId w = snd (get_vote_store_id V w)"
| "perform L V (GetEmptyBallot g) w = snd (get_empty_ballot L V g w)"
| "perform L V GetAllGuidWorkspacesReq w = snd (get_all_guid_workspaces V w)"
| "perform L V (CastBallot g doc) w = snd (cast_ballot L V g doc w)"
| "perform L V (VerifyBallotCheck g j) w = snd (verify_ballot_check V g j w)"
| "perform L V (TallyElectionCheck g j) w = snd (tally_election_check V g j w)"

fun perform_all :: "pylib \<Rightarrow> 's vtp \<Rightarrow> request list \<Rightarrow> 's world \<Rightarrow> 's world" where
  "perform_all L V [] w = w"
| "perform_all L V (r # rs) w = perform_all L V rs (perform L V r w)"

text \<open>The first of the keys \<open>ks\<close>, in order, that the \<^verbatim>\<open>dict\<close> lacks.\<close>

fun first_missing :: "pydict \<Rightarrow> string list \<Rightarrow> string option" where
  "first_missing d [] = None"
| "first_missing d (k # ks) = (case d k of None \<Rightarrow> Some k | Some v \<Rightarrow> first_missing d ks)"

text \<open>
  What a method returns when it hands a collaborator's outcome on: the result or failure as
  it came, the store as the collaborator left it, and the calls \<open>cs\<close> added to the log.
\<close>

definition relay :: "'s world \<Rightarrow> call list \<Rightarrow> (error + 'a) \<times> 's \<Rightarrow> (error + 'a) \<times> 's world" where
  "relay w cs out = (fst out, w\<lparr>store := snd out, calls := calls w @ cs\<rparr>)"

section \<open>The backing store of the spec\<close>

text \<open>
  The Workspace Directory, that is \<^verbatim>\<open>Common.get_guid_based_edf_dir\<close>,
  \<^verbatim>\<open>SetupVtpDemoOperation.run\<close> and \<^verbatim>\<open>SetupVtpDemoOperation.get_all_guid_workspaces\<close>, and
  the operations are code of VoteTrackerPlus and not under src/. What is stated about them
  below is taken from the spec. The store holds the directory (the session identifiers issued
  so far, each with the location of its workspace, in the order of issue), the identifiers
  still to come, and the contents of the workspaces, which only the operations use.
\<close>

record 'c sstore =
  directory :: "(guid \<times> path) list"
  unissued :: "(guid \<times> path) list"
  contents :: 'c

definition issued :: "'c sstore \<Rightarrow> guid set" where
  "issued s = fst ` set (directory s)"

text \<open>
  Modelled from the spec: \<^verbatim>\<open>resolve(session_id)\<close> of the Workspace Directory (4.2), absent
  from src/, maps a session identifier to its workspace location and fails with
  \<open>UnknownSession\<close> if the identifier was never issued.
\<close>

definition directory_resolve :: "guid \<Rightarrow> 'c sstore \<Rightarrow> (error + path) \<times> 'c sstore" where
  "directory_resolve g s =
     (case map_of (directory s) g of
        None \<Rightarrow> (Inl (UnknownSession g), s)
      | Some p \<Rightarrow> (Inr p, s))"

text \<open>
  Modelled from the spec: the workspace provisioning behind \<^verbatim>\<open>issue_session()\<close> (4.2, 6),
  absent from src/, provisions a new isolated workspace and returns its generated
  identifier, which is never reused; a failure to provision is a configuration error. The
  spec does not say how an identifier is generated: provisioning takes the first of the
  identifiers still to come that the directory does not hold.
\<close>

definition directory_provision ::
  "path \<Rightarrow> int \<Rightarrow> bool \<Rightarrow> 'c sstore \<Rightarrow> (error + guid) \<times> 'c sstore" where
  "directory_provision target_dir verbosity guid_client_store s =
     (case dropWhile (\<lambda>gp. fst gp \<in> issued s) (unissued s) of
        [] \<Rightarrow> (Inl (OperationFailure ''ConfigurationError''), s)
      | gp # rest \<Rightarrow> (Inr (fst gp), s\<lparr>directory := directory s @ [gp], unissued := rest\<rparr>))"

text \<open>
  Modelled from the spec: \<^verbatim>\<open>list_sessions()\<close> of the Workspace Directory (4.2, 6), absent
  from src/, enumerates all currently known workspaces and does not fail.
\<close>

definition directory_list_sessions :: "'c sstore \<Rightarrow> (error + guid list) \<times> 'c sstore" where
  "directory_list_sessions s = (Inr (map fst (directory s)), s)"

text \<open>
  Modelled from the spec: the blank-ballot operation (\<^verbatim>\<open>CastBallotOperation.run\<close> with
  \<^verbatim>\<open>return_bb\<close>), absent from src/. By the spec (3) the blank ballot is produced once per
  session and is read-only to the gateway, and a workspace is mutated by ballot casting
  only: looking the workspace of \<open>g\<close> up and running the blank-ballot operation on it, with
  the arguments the gateway passes, leave the store \<open>s\<close> as it was.
\<close>

definition blank_ballot_reads_only :: "'s vtp \<Rightarrow> guid \<Rightarrow> 's \<Rightarrow> bool" where
  "blank_ballot_reads_only V g s =
     (case get_guid_based_edf_dir V g s of
        (Inl e, s') \<Rightarrow> s' = s
      | (Inr d, s') \<Rightarrow> snd (cast_ballot_operation V d VERBOSITY ADDRESS True s') = s)"

section \<open>A small deployment\<close>

text \<open>
  One concrete set of collaborators, on which the theorems below are instantiated: the
  Workspace Directory above, and operations that answer from their arguments. Accepting a
  ballot counts the ballots of the store and rejects a document without contests;
  verifying accepts row 0 only.
\<close>

definition demo_lib :: pylib where
  "demo_lib =
     \<lparr>json_loads = (\<lambda>txt. if txt = ''{}'' then Some (PDict []) else None),
      csv_rows = (\<lambda>txt. if txt = [] then None else Some [[txt]])\<rparr>"

definition demo_vtp :: "nat sstore vtp" where
  "demo_vtp =
     \<lparr>get_generic_ro_edf_dir = (\<lambda>s. (Inr ''/opt/VoteTrackerPlus/demo.01'', s)),
      get_guid_based_edf_dir = directory_resolve,
      setup_vtp_demo_operation = directory_provision,
      setup_get_all_guid_workspaces = directory_list_sessions,
      cast_ballot_operation =
        (\<lambda>d v a rb s. (Inr (PDict [(''workspace'', PStr d), (''address'', PStr a), (''verbosity'', PInt v)]), s)),
      accept_ballot_operation =
        (\<lambda>d v doc mc s.
           if doc ''contests'' = None then (Inl (OperationFailure ''malformed cast ballot''), s)
           else (Inr ([[d]], int (contents s)), s\<lparr>contents := Suc (contents s)\<rparr>)),
      verify_ballot_receipt_operation =
        (\<lambda>d receipt row cvr s.
           if row = PInt 0 then (Inr ''receipt verified'', s)
           else (Inl (OperationFailure ''MismatchedReceipt''), s)),
      tally_contests_operation = (\<lambda>d v uids track s. (Inr ''tally report'', s))\<rparr>"

definition demo_store :: "nat sstore" where
  "demo_store = \<lparr>directory = [(''g1'', ''/ws/g1'')], unissued = [(''g2'', ''/ws/g2'')], contents = 0\<rparr>"

definition live_world :: "nat sstore world" where
  "live_world = \<lparr>MOCK_MODE = False, files = Map.empty, store = demo_store, calls = []\<rparr>"

definition mock_world :: "nat sstore world" where
  "mock_world =
     \<lparr>MOCK_MODE = True,
      files = [''mock-data/blank-ballot.json'' \<mapsto> ''{}'', ''mock-data/receipts.26.csv'' \<mapsto> ''a,b''],
      store = demo_store, calls = []\<rparr>"

section \<open>The methods, one mode at a time\<close>

lemmas seq_defs = returnE_def raiseE_def bindE_def invoke_def subscript_def open_file_def json_load_def csv_reader_def
lemmas const_defs = MOCK_BLANK_BALLOT_def MOCK_CAST_BALLOT_def MOCK_BALLOT_CHECK_def MOCK_VOTER_INDEX_def MOCK_GUID_def
  MOCK_VERIFY_BALLOT_RECEIPT_LOG_def MOCK_TALLY_CONTESTS_LOG_def VERBOSITY_def ADDRESS_def
lemmas demo_defs = demo_lib_def demo_vtp_def demo_store_def live_world_def mock_world_def
  directory_resolve_def directory_provision_def directory_list_sessions_def issued_def

subsection \<open>Mock mode\<close>

lemma mock_get_vote_store_id:
  "MOCK_MODE w \<Longrightarrow> get_vote_store_id V w = (Inr MOCK_GUID, w)"
  by (simp add: get_vote_store_id_def returnE_def)

lemma mock_get_empty_ballot:
  "MOCK_MODE w \<Longrightarrow> get_empty_ballot L V g w =
     ((case files w MOCK_BLANK_BALLOT of
         None \<Rightarrow> Inl (FileNotFoundError MOCK_BLANK_BALLOT)
       | Some txt \<Rightarrow> (case json_loads L txt of
           None \<Rightarrow> Inl (JSONDecodeError MOCK_BLANK_BALLOT)
         | Some doc \<Rightarrow> Inr doc)), w)"
  by (simp add: get_empty_ballot_def seq_defs split: option.splits)

lemma mock_cast_ballot:
  "MOCK_MODE w \<Longrightarrow> cast_ballot L V g doc w =
     ((case files w MOCK_BALLOT_CHECK of
         None \<Rightarrow> Inl (FileNotFoundError MOCK_BALLOT_CHECK)
       | Some txt \<Rightarrow> (case csv_rows L txt of
           None \<Rightarrow> Inl (CsvError MOCK_BALLOT_CHECK)
         | Some rows \<Rightarrow> Inr (rows, MOCK_VOTER_INDEX))), w)"
  by (simp add: cast_ballot_def mock_get_ballot_check_def seq_defs split: option.splits)

lemma mock_verify_ballot_check:
  "MOCK_MODE w \<Longrightarrow> verify_ballot_check V g j w = (Inr MOCK_VERIFY_BALLOT_RECEIPT_LOG, w)"
  by (simp add: verify_ballot_check_def returnE_def)

lemma mock_tally_election_check:
  "MOCK_MODE w \<Longrightarrow> tally_election_check V g j w = (Inr MOCK_TALLY_CONTESTS_LOG, w)"
  by (simp add: tally_election_check_def returnE_def)

subsection \<open>Live mode\<close>

lemma live_get_vote_store_id:
  assumes "\<not> MOCK_MODE w"
  shows "get_vote_store_id V w =
     (case get_generic_ro_edf_dir V (store w) of
        (Inl e, s1) \<Rightarrow> (Inl e, w\<lparr>store := s1, calls := calls w @ [GetGenericRoEdfDir]\<rparr>)
      | (Inr d, s1) \<Rightarrow>
          (case setup_vtp_demo_operation V d VERBOSITY True s1 of
             (r, s2) \<Rightarrow> (r, w\<lparr>store := s2,
               calls := calls w @ [GetGenericRoEdfDir, SetupVtpDemoRun d VERBOSITY True]\<rparr>)))"
  using assms by (simp add: get_vote_store_id_def seq_defs split: prod.splits sum.splits)

lemma live_get_empty_ballot:
  assumes "\<not> MOCK_MODE w"
  shows "get_empty_ballot L V g w =
     (case get_guid_based_edf_dir V g (store w) of
        (Inl e, s1) \<Rightarrow> (Inl e, w\<lparr>store := s1, calls := calls w @ [GetGuidBasedEdfDir g]\<rparr>)
      | (Inr d, s1) \<Rightarrow>
          (case cast_ballot_operation V d VERBOSITY ADDRESS True s1 of
             (r, s2) \<Rightarrow> (r, w\<lparr>store := s2,
               calls := calls w @ [GetGuidBasedEdfDir g, CastBallotRun d VERBOSITY ADDRESS True]\<rparr>)))"
  using assms by (simp add: get_empty_ballot_def seq_defs split: prod.splits sum.splits)

lemma live_cast_ballot:
  assumes "\<not> MOCK_MODE w"
  shows "cast_ballot L V g doc w =
     (case get_guid_based_edf_dir V g (store w) of
        (Inl e, s1) \<Rightarrow> (Inl e, w\<lparr>store := s1, calls := calls w @ [GetGuidBasedEdfDir g]\<rparr>)
      | (Inr d, s1) \<Rightarrow>
          (case accept_ballot_operation V d VERBOSITY doc True s1 of
             (r, s2) \<Rightarrow> (r, w\<lparr>store := s2,
               calls := calls w @ [GetGuidBasedEdfDir g, AcceptBallotRun d VERBOSITY doc True]\<rparr>)))"
  using assms by (simp add: cast_ballot_def seq_defs split: prod.splits sum.splits)

lemma live_verify_ballot_check:
  assumes "\<not> MOCK_MODE w"
  shows "verify_ballot_check V g j w =
     (case get_guid_based_edf_dir V g (store w) of
        (Inl e, s1) \<Rightarrow> (Inl e, w\<lparr>store := s1, calls := calls w @ [GetGuidBasedEdfDir g]\<rparr>)
      | (Inr d, s1) \<Rightarrow>
          (case first_missing j [''ballot-check'', ''vote-index''] of
             Some k \<Rightarrow> (Inl (KeyError k), w\<lparr>store := s1, calls := calls w @ [GetGuidBasedEdfDir g]\<rparr>)
           | None \<Rightarrow>
              (case verify_ballot_receipt_operation V d (the (j ''ballot-check'')) (the (j ''vote-index'')) True s1 of
                (r, s2) \<Rightarrow> (r, w\<lparr>store := s2,
                  calls := calls w @ [GetGuidBasedEdfDir g,
                    VerifyBallotReceiptRun d (the (j ''ballot-check'')) (the (j ''vote-index'')) True]\<rparr>))))"
  using assms by (simp add: verify_ballot_check_def seq_defs split: prod.splits sum.splits option.splits)

lemma live_tally_election_check:
  assumes "\<not> MOCK_MODE w"
  shows "tally_election_check V g j w =
     (case get_guid_based_edf_dir V g (store w) of
        (Inl e, s1) \<Rightarrow> (Inl e, w\<lparr>store := s1, calls := calls w @ [GetGuidBasedEdfDir g]\<rparr>)
      | (Inr d, s1) \<Rightarrow>
          (case first_missing j [''verbosity'', ''contest-uids'', ''track-contests''] of
             Some k \<Rightarrow> (Inl (KeyError k), w\<lparr>store := s1, calls := calls w @ [GetGuidBasedEdfDir g]\<rparr>)
           | None \<Rightarrow>
              (case tally_contests_operation V d (the (j ''verbosity'')) (the (j ''contest-uids''))
                      (the (j ''track-contests'')) s1 of
                (r, s2) \<Rightarrow> (r, w\<lparr>store := s2,
                  calls := calls w @ [GetGuidBasedEdfDir g,
                    TallyContestsRun d (the (j ''verbosity'')) (the (j ''contest-uids''))
                      (the (j ''track-contests''))]\<rparr>))))"
  using assms by (simp add: tally_election_check_def seq_defs split: prod.splits sum.splits option.splits)


section \<open>Mock mode and the enumeration\<close>

text \<open>
  C1. In mock mode every operation, the enumeration of the sessions included, answers
  without calling into the Workspace Directory or the operations, whatever the backing
  store holds. The code of \<^verbatim>\<open>get_all_guid_workspaces\<close> has no branch on the mode: with
  \<^verbatim>\<open>_MOCK_MODE\<close> set, on a store whose directory holds the session \<open>g1\<close>, it calls
  \<^verbatim>\<open>SetupVtpDemoOperation.get_all_guid_workspaces\<close> (the call is in the log) and returns what
  the directory holds, so that another store gives another answer.
\<close>

theorem mock_mode_enumeration_reaches_directory:
  "MOCK_MODE mock_world
   \<and> get_all_guid_workspaces demo_vtp mock_world
       = (Inr [''g1''], mock_world\<lparr>calls := [GetAllGuidWorkspaces]\<rparr>)
   \<and> fst (get_all_guid_workspaces demo_vtp (mock_world\<lparr>store := demo_store\<lparr>directory := []\<rparr>\<rparr>)) = Inr []"
  by (simp add: get_all_guid_workspaces_def invoke_def demo_defs)

text \<open>
  C2. In mock mode, for every session identifier and every payload: the session issued is
  the fixed identifier; the blank ballot is the parsed content of the blank-ballot fixture;
  casting returns the parsed rows of the CSV fixture with the index 26, whatever the cast
  ballot; verifying returns "Hello World" and tallying "Good Morning". Nothing of the
  process state changes.
\<close>

theorem mock_mode_fixed_artifacts:
  assumes "MOCK_MODE w"
  shows "get_vote_store_id V w = (Inr ''01d963fd74100ee3f36428740a8efd8afd781839'', w)
    \<and> (files w ''mock-data/blank-ballot.json'' = Some bb_txt \<longrightarrow> json_loads L bb_txt = Some bb_doc
         \<longrightarrow> get_empty_ballot L V g w = (Inr bb_doc, w))
    \<and> (files w ''mock-data/receipts.26.csv'' = Some bc_txt \<longrightarrow> csv_rows L bc_txt = Some bc_rows
         \<longrightarrow> cast_ballot L V g a_cast_ballot w = (Inr (bc_rows, 26), w))
    \<and> verify_ballot_check V g j w = (Inr ''Hello World'', w)
    \<and> tally_election_check V g j w = (Inr ''Good Morning'', w)"
  using assms
  by (simp add: mock_get_vote_store_id mock_get_empty_ballot mock_cast_ballot
      mock_verify_ballot_check mock_tally_election_check const_defs)

theorem mock_mode_fixed_artifacts_witness:
  "MOCK_MODE mock_world
   \<and> get_vote_store_id demo_vtp mock_world = (Inr ''01d963fd74100ee3f36428740a8efd8afd781839'', mock_world)
   \<and> get_empty_ballot demo_lib demo_vtp ''never-issued'' mock_world = (Inr (PDict []), mock_world)
   \<and> cast_ballot demo_lib demo_vtp ''never-issued'' Map.empty mock_world = (Inr ([[''a,b'']], 26), mock_world)
   \<and> verify_ballot_check demo_vtp ''never-issued'' Map.empty mock_world = (Inr ''Hello World'', mock_world)
   \<and> tally_election_check demo_vtp ''never-issued'' Map.empty mock_world = (Inr ''Good Morning'', mock_world)"
  using mock_mode_fixed_artifacts [where w = mock_world and V = demo_vtp and L = demo_lib
      and g = "''never-issued''" and bb_txt = "''{}''" and bb_doc = "PDict []" and bc_txt = "''a,b''"
      and bc_rows = "[[''a,b'']]" and a_cast_ballot = Map.empty and j = Map.empty]
  by (simp add: mock_world_def demo_lib_def)

section \<open>Live mode\<close>

lemma unresolved_lookup: "g \<notin> issued s \<Longrightarrow> directory_resolve g s = (Inl (UnknownSession g), s)"
proof -
  assume "g \<notin> issued s"
  then have "map_of (directory s) g = None"
    by (simp add: issued_def map_of_eq_None_iff)
  then show ?thesis by (simp add: directory_resolve_def)
qed

text \<open>
  C3. With the Workspace Directory of the spec: in live mode, for a session identifier that
  was never issued (the directory does not hold it), getting the blank ballot, casting,
  verifying and tallying each fail with \<open>UnknownSession\<close>, whatever the payload; and in mock
  mode no operation fails with \<open>UnknownSession\<close>.
\<close>

theorem unknown_session_fails_live_only:
  assumes "get_guid_based_edf_dir V = directory_resolve"
    and "setup_get_all_guid_workspaces V = directory_list_sessions"
  shows "(\<not> MOCK_MODE w \<longrightarrow> g \<notin> issued (store w) \<longrightarrow>
            fst (get_empty_ballot L V g w) = Inl (UnknownSession g)
          \<and> fst (cast_ballot L V g doc w) = Inl (UnknownSession g)
          \<and> fst (verify_ballot_check V g j w) = Inl (UnknownSession g)
          \<and> fst (tally_election_check V g j w) = Inl (UnknownSession g))
       \<and> (MOCK_MODE w \<longrightarrow>
            fst (get_vote_store_id V w) \<noteq> Inl (UnknownSession x)
          \<and> fst (get_empty_ballot L V g w) \<noteq> Inl (UnknownSession x)
          \<and> fst (get_all_guid_workspaces V w) \<noteq> Inl (UnknownSession x)
          \<and> fst (cast_ballot L V g doc w) \<noteq> Inl (UnknownSession x)
          \<and> fst (verify_ballot_check V g j w) \<noteq> Inl (UnknownSession x)
          \<and> fst (tally_election_check V g j w) \<noteq> Inl (UnknownSession x))"
proof (intro conjI impI)
  assume live: "\<not> MOCK_MODE w" and new: "g \<notin> issued (store w)"
  have r: "get_guid_based_edf_dir V g (store w) = (Inl (UnknownSession g), store w)"
    using assms(1) new by (simp add: unresolved_lookup)
  show "fst (get_empty_ballot L V g w) = Inl (UnknownSession g)"
    using live r by (simp add: live_get_empty_ballot)
  show "fst (cast_ballot L V g doc w) = Inl (UnknownSession g)"
    using live r by (simp add: live_cast_ballot)
  show "fst (verify_ballot_check V g j w) = Inl (UnknownSession g)"
    using live r by (simp add: live_verify_ballot_check)
  show "fst (tally_election_check V g j w) = Inl (UnknownSession g)"
    using live r by (simp add: live_tally_election_check)
next
  assume m: "MOCK_MODE w"
  show "fst (get_vote_store_id V w) \<noteq> Inl (UnknownSession x)"
    using m by (simp add: mock_get_vote_store_id)
  show "fst (get_empty_ballot L V g w) \<noteq> Inl (UnknownSession x)"
    using m by (simp add: mock_get_empty_ballot split: option.splits)
  show "fst (get_all_guid_workspaces V w) \<noteq> Inl (UnknownSession x)"
    using assms(2) by (simp add: get_all_guid_workspaces_def invoke_def directory_list_sessions_def)
  show "fst (cast_ballot L V g doc w) \<noteq> Inl (UnknownSession x)"
    using m by (simp add: mock_cast_ballot split: option.splits)
  show "fst (verify_ballot_check V g j w) \<noteq> Inl (UnknownSession x)"
    using m by (simp add: mock_verify_ballot_check)
  show "fst (tally_election_check V g j w) \<noteq> Inl (UnknownSession x)"
    using m by (simp add: mock_tally_election_check)
qed

theorem unknown_session_fails_live_only_witness:
  "\<not> MOCK_MODE live_world \<and> ''g7'' \<notin> issued (store live_world)
   \<and> fst (get_empty_ballot demo_lib demo_vtp ''g7'' live_world) = Inl (UnknownSession ''g7'')
   \<and> fst (cast_ballot demo_lib demo_vtp ''g7'' [''contests'' \<mapsto> PList []] live_world) = Inl (UnknownSession ''g7'')
   \<and> fst (verify_ballot_check demo_vtp ''g7'' [''ballot-check'' \<mapsto> PList [], ''vote-index'' \<mapsto> PInt 0] live_world)
        = Inl (UnknownSession ''g7'')
   \<and> fst (tally_election_check demo_vtp ''g7'' Map.empty live_world) = Inl (UnknownSession ''g7'')
   \<and> MOCK_MODE mock_world
   \<and> fst (get_empty_ballot demo_lib demo_vtp ''g7'' mock_world) \<noteq> Inl (UnknownSession ''g7'')"
  using unknown_session_fails_live_only [where V = demo_vtp and w = live_world and g = "''g7''" and L = demo_lib
      and doc = "[''contests'' \<mapsto> PList []]"
      and j = "[''ballot-check'' \<mapsto> PList [], ''vote-index'' \<mapsto> PInt 0]"]
    unknown_session_fails_live_only [where V = demo_vtp and w = live_world and g = "''g7''" and L = demo_lib and j = Map.empty]
    unknown_session_fails_live_only [where V = demo_vtp and w = mock_world and g = "''g7''" and L = demo_lib and x = "''g7''"]
  by (simp add: demo_vtp_def live_world_def mock_world_def demo_store_def issued_def)

text \<open>
  C4. In live mode every operation is a relay. When the workspace (for issuing: the generic
  election data directory) is found, the operation returns what the delegated operation
  returns, result or failure, unchanged, leaves the store as that operation left it, and
  has called each collaborator once; the cast ballot and the payload fields are handed over
  as they came. When the lookup of the workspace fails, that failure is returned unchanged
  and nothing else is called.
\<close>

theorem live_mode_transparent_relay:
  assumes "\<not> MOCK_MODE w"
  shows
   "(get_generic_ro_edf_dir V (store w) = (Inr gd, gs) \<longrightarrow>
       get_vote_store_id V w
         = relay w [GetGenericRoEdfDir, SetupVtpDemoRun gd 3 True] (setup_vtp_demo_operation V gd 3 True gs))
  \<and> (get_generic_ro_edf_dir V (store w) = (Inl ge, gs) \<longrightarrow>
       get_vote_store_id V w = relay w [GetGenericRoEdfDir] (Inl ge, gs))
  \<and> get_all_guid_workspaces V w = relay w [GetAllGuidWorkspaces] (setup_get_all_guid_workspaces V (store w))
  \<and> (get_guid_based_edf_dir V g (store w) = (Inr d, rs) \<longrightarrow>
       get_empty_ballot L V g w
         = relay w [GetGuidBasedEdfDir g, CastBallotRun d 3 ADDRESS True]
             (cast_ballot_operation V d 3 ADDRESS True rs)
     \<and> cast_ballot L V g doc w
         = relay w [GetGuidBasedEdfDir g, AcceptBallotRun d 3 doc True]
             (accept_ballot_operation V d 3 doc True rs)
     \<and> (j ''ballot-check'' = Some bc \<longrightarrow> j ''vote-index'' = Some vi \<longrightarrow>
          verify_ballot_check V g j w
            = relay w [GetGuidBasedEdfDir g, VerifyBallotReceiptRun d bc vi True]
                (verify_ballot_receipt_operation V d bc vi True rs))
     \<and> (j ''verbosity'' = Some vb \<longrightarrow> j ''contest-uids'' = Some cu \<longrightarrow> j ''track-contests'' = Some tc \<longrightarrow>
          tally_election_check V g j w
            = relay w [GetGuidBasedEdfDir g, TallyContestsRun d vb cu tc]
                (tally_contests_operation V d vb cu tc rs)))
  \<and> (get_guid_based_edf_dir V g (store w) = (Inl e, rs) \<longrightarrow>
       get_empty_ballot L V g w = relay w [GetGuidBasedEdfDir g] (Inl e, rs)
     \<and> cast_ballot L V g doc w = relay w [GetGuidBasedEdfDir g] (Inl e, rs)
     \<and> verify_ballot_check V g j w = relay w [GetGuidBasedEdfDir g] (Inl e, rs)
     \<and> tally_election_check V g j w = relay w [GetGuidBasedEdfDir g] (Inl e, rs))"
proof (intro conjI impI)
  show "get_all_guid_workspaces V w = relay w [GetAllGuidWorkspaces] (setup_get_all_guid_workspaces V (store w))"
    by (simp add: get_all_guid_workspaces_def invoke_def relay_def split: prod.splits)
next
  assume "get_generic_ro_edf_dir V (store w) = (Inr gd, gs)"
  then show "get_vote_store_id V w
         = relay w [GetGenericRoEdfDir, SetupVtpDemoRun gd 3 True] (setup_vtp_demo_operation V gd 3 True gs)"
    using assms by (simp add: live_get_vote_store_id relay_def VERBOSITY_def split: prod.splits)
next
  assume "get_generic_ro_edf_dir V (store w) = (Inl ge, gs)"
  then show "get_vote_store_id V w = relay w [GetGenericRoEdfDir] (Inl ge, gs)"
    using assms by (simp add: live_get_vote_store_id relay_def)
next
  assume r: "get_guid_based_edf_dir V g (store w) = (Inr d, rs)"
  show "get_empty_ballot L V g w
         = relay w [GetGuidBasedEdfDir g, CastBallotRun d 3 ADDRESS True]
             (cast_ballot_operation V d 3 ADDRESS True rs)"
    using assms r by (simp add: live_get_empty_ballot relay_def VERBOSITY_def split: prod.splits)
  show "cast_ballot L V g doc w
         = relay w [GetGuidBasedEdfDir g, AcceptBallotRun d 3 doc True]
             (accept_ballot_operation V d 3 doc True rs)"
    using assms r by (simp add: live_cast_ballot relay_def VERBOSITY_def split: prod.splits)
  {
    assume "j ''ballot-check'' = Some bc" and "j ''vote-index'' = Some vi"
    then show "verify_ballot_check V g j w
            = relay w [GetGuidBasedEdfDir g, VerifyBallotReceiptRun d bc vi True]
                (verify_ballot_receipt_operation V d bc vi True rs)"
      using assms r by (simp add: live_verify_ballot_check relay_def split: prod.splits)
  }
  {
    assume "j ''verbosity'' = Some vb" and "j ''contest-uids'' = Some cu" and "j ''track-contests'' = Some tc"
    then show "tally_election_check V g j w
            = relay w [GetGuidBasedEdfDir g, TallyContestsRun d vb cu tc]
                (tally_contests_operation V d vb cu tc rs)"
      using assms r by (simp add: live_tally_election_check relay_def split: prod.splits)
  }
next
  assume r: "get_guid_based_edf_dir V g (store w) = (Inl e, rs)"
  show "get_empty_ballot L V g w = relay w [GetGuidBasedEdfDir g] (Inl e, rs)"
    using assms r by (simp add: live_get_empty_ballot relay_def)
  show "cast_ballot L V g doc w = relay w [GetGuidBasedEdfDir g] (Inl e, rs)"
    using assms r by (simp add: live_cast_ballot relay_def)
  show "verify_ballot_check V g j w = relay w [GetGuidBasedEdfDir g] (Inl e, rs)"
    using assms r by (simp add: live_verify_ballot_check relay_def)
  show "tally_election_check V g j w = relay w [GetGuidBasedEdfDir g] (Inl e, rs)"
    using assms r by (simp add: live_tally_election_check relay_def)
qed

theorem live_mode_transparent_relay_witness:
  "\<not> MOCK_MODE live_world
   \<and> fst (get_vote_store_id demo_vtp live_world) = Inr ''g2''
   \<and> fst (get_all_guid_workspaces demo_vtp live_world) = Inr [''g1'']
   \<and> fst (cast_ballot demo_lib demo_vtp ''g1'' Map.empty live_world)
        = Inl (OperationFailure ''malformed cast ballot'')
   \<and> fst (cast_ballot demo_lib demo_vtp ''g1'' [''contests'' \<mapsto> PList []] live_world) = Inr ([[''/ws/g1'']], 0)
   \<and> fst (verify_ballot_check demo_vtp ''g1'' [''ballot-check'' \<mapsto> PList [], ''vote-index'' \<mapsto> PInt 1] live_world)
        = Inl (OperationFailure ''MismatchedReceipt'')
   \<and> fst (tally_election_check demo_vtp ''g1''
         [''verbosity'' \<mapsto> PInt 3, ''contest-uids'' \<mapsto> PList [], ''track-contests'' \<mapsto> PBool False] live_world)
        = Inr ''tally report''
   \<and> fst (get_empty_ballot demo_lib demo_vtp ''g7'' live_world) = Inl (UnknownSession ''g7'')"
  using live_mode_transparent_relay [where w = live_world and V = demo_vtp and L = demo_lib and g = "''g1''"
      and gd = "''/opt/VoteTrackerPlus/demo.01''" and gs = demo_store and d = "''/ws/g1''" and rs = demo_store
      and doc = Map.empty
      and j = "[''ballot-check'' \<mapsto> PList [], ''vote-index'' \<mapsto> PInt 1]" and bc = "PList []" and vi = "PInt 1"]
    live_mode_transparent_relay [where w = live_world and V = demo_vtp and L = demo_lib and g = "''g1''"
      and d = "''/ws/g1''" and rs = demo_store and doc = "[''contests'' \<mapsto> PList []]"
      and j = "[''verbosity'' \<mapsto> PInt 3, ''contest-uids'' \<mapsto> PList [], ''track-contests'' \<mapsto> PBool False]"
      and vb = "PInt 3" and cu = "PList []" and tc = "PBool False"]
    live_mode_transparent_relay [where w = live_world and V = demo_vtp and L = demo_lib and g = "''g7''"
      and e = "UnknownSession ''g7''" and rs = demo_store]
  by (simp add: relay_def demo_defs)

text \<open>
  C5. In live mode, for every session identifier and every cast ballot, casting first
  resolves the workspace of the session; on the workspace found it runs the accept
  operation with verbosity 3, the caller's cast ballot as it came and \<^verbatim>\<open>merge_contests\<close>
  true, and returns that operation's outcome: a ballot-check table with a voter index, or
  its failure.
\<close>

theorem cast_ballot_live_delegation:
  assumes "\<not> MOCK_MODE w"
  shows "(\<exists>rest. calls (snd (cast_ballot L V g doc w)) = calls w @ GetGuidBasedEdfDir g # rest)
    \<and> (get_guid_based_edf_dir V g (store w) = (Inr d, rs) \<longrightarrow>
         cast_ballot L V g doc w =
           (fst (accept_ballot_operation V d 3 doc True rs),
            w\<lparr>store := snd (accept_ballot_operation V d 3 doc True rs),
              calls := calls w @ [GetGuidBasedEdfDir g, AcceptBallotRun d 3 doc True]\<rparr>))"
  using assms
  by (simp add: live_cast_ballot VERBOSITY_def split: prod.splits sum.splits)

theorem cast_ballot_live_delegation_witness:
  "\<not> MOCK_MODE live_world
   \<and> cast_ballot demo_lib demo_vtp ''g1'' [''contests'' \<mapsto> PList []] live_world
      = (Inr ([[''/ws/g1'']], 0),
         live_world\<lparr>store := demo_store\<lparr>contents := 1\<rparr>,
           calls := [GetGuidBasedEdfDir ''g1'', AcceptBallotRun ''/ws/g1'' 3 [''contests'' \<mapsto> PList []] True]\<rparr>)"
  using cast_ballot_live_delegation [where w = live_world and V = demo_vtp and L = demo_lib and g = "''g1''"
      and d = "''/ws/g1''" and rs = demo_store and doc = "[''contests'' \<mapsto> PList []]"]
  by (simp add: demo_defs)

section \<open>The blank ballot, the sessions and the mode flag\<close>

lemma get_empty_ballot_mode: "MOCK_MODE (snd (get_empty_ballot L V g w)) = MOCK_MODE w"
  by (cases "MOCK_MODE w")
    (simp_all add: mock_get_empty_ballot live_get_empty_ballot split: prod.splits sum.splits)

lemma live_get_empty_ballot_store:
  assumes "\<not> MOCK_MODE w" and "\<not> MOCK_MODE w'" and "store w' = store w"
  shows "fst (get_empty_ballot L' V g w') = fst (get_empty_ballot L V g w)"
  using assms by (simp add: live_get_empty_ballot split: prod.splits sum.splits)

text \<open>
  C6. Two successive requests for the blank ballot of one session identifier return the same
  document. In mock mode this holds as it stands. In live mode the document comes from the
  blank-ballot operation of VoteTrackerPlus, which by the spec reads the store and does not
  change it; so read, the second request returns what the first returned.
\<close>

theorem get_empty_ballot_twice_same_document:
  assumes "MOCK_MODE w \<or> blank_ballot_reads_only V g (store w)"
  shows "fst (get_empty_ballot L V g (snd (get_empty_ballot L V g w))) = fst (get_empty_ballot L V g w)"
proof (cases "MOCK_MODE w")
  case True
  then show ?thesis by (simp add: mock_get_empty_ballot)
next
  case False
  with assms have "blank_ballot_reads_only V g (store w)" by simp
  then have "store (snd (get_empty_ballot L V g w)) = store w"
    using False
    by (auto simp add: blank_ballot_reads_only_def live_get_empty_ballot split: prod.splits sum.splits)
  moreover have "\<not> MOCK_MODE (snd (get_empty_ballot L V g w))"
    using False by (simp add: get_empty_ballot_mode)
  ultimately show ?thesis
    using False by (intro live_get_empty_ballot_store) simp_all
qed

theorem get_empty_ballot_twice_same_document_witness:
  "blank_ballot_reads_only demo_vtp ''g1'' (store live_world)
   \<and> fst (get_empty_ballot demo_lib demo_vtp ''g1'' (snd (get_empty_ballot demo_lib demo_vtp ''g1'' live_world)))
      = fst (get_empty_ballot demo_lib demo_vtp ''g1'' live_world)
   \<and> MOCK_MODE mock_world
   \<and> fst (get_empty_ballot demo_lib demo_vtp ''g1'' (snd (get_empty_ballot demo_lib demo_vtp ''g1'' mock_world)))
      = fst (get_empty_ballot demo_lib demo_vtp ''g1'' mock_world)"
proof -
  have a: "blank_ballot_reads_only demo_vtp ''g1'' (store live_world)"
    by (simp add: blank_ballot_reads_only_def demo_defs)
  have b: "MOCK_MODE mock_world" by (simp add: mock_world_def)
  show ?thesis
    using a b get_empty_ballot_twice_same_document [where w = live_world and L = demo_lib and V = demo_vtp and g = "''g1''"]
      get_empty_ballot_twice_same_document [where w = mock_world and L = demo_lib and V = demo_vtp and g = "''g1''"]
    by simp
qed

text \<open>
  C7. With the Workspace Directory of the spec: in live mode, when issuing a session returns
  the identifier \<open>g\<close>, the enumeration of the sessions that follows returns the identifiers
  of the directory, and \<open>g\<close> is among them.
\<close>

theorem issued_session_is_enumerated:
  assumes "setup_vtp_demo_operation V = directory_provision"
    and "setup_get_all_guid_workspaces V = directory_list_sessions"
    and "\<not> MOCK_MODE w"
    and "get_vote_store_id V w = (Inr g, w')"
  shows "fst (get_all_guid_workspaces V w') = Inr (map fst (directory (store w')))
    \<and> g \<in> set (map fst (directory (store w')))"
proof -
  have l: "fst (get_all_guid_workspaces V w') = Inr (map fst (directory (store w')))"
    using assms(2) by (simp add: get_all_guid_workspaces_def invoke_def directory_list_sessions_def)
  obtain r sa where ro: "get_generic_ro_edf_dir V (store w) = (r, sa)" by (cases "get_generic_ro_edf_dir V (store w)")
  show ?thesis
  proof (cases r)
    case (Inl e)
    with ro assms(3,4) show ?thesis by (simp add: live_get_vote_store_id)
  next
    case (Inr d)
    with ro assms(1,3,4) have p: "directory_provision d VERBOSITY True sa = (Inr g, store w')"
      by (auto simp add: live_get_vote_store_id split: prod.splits)
    have "g \<in> fst ` set (directory (store w'))"
    proof (cases "dropWhile (\<lambda>gp. fst gp \<in> issued sa) (unissued sa)")
      case Nil
      with p show ?thesis by (simp add: directory_provision_def)
    next
      case (Cons gp rest)
      with p have "g = fst gp" and "store w' = sa\<lparr>directory := directory sa @ [gp], unissued := rest\<rparr>"
        by (simp_all add: directory_provision_def)
      then show ?thesis by simp
    qed
    with l show ?thesis by simp
  qed
qed

theorem issued_session_is_enumerated_witness:
  "\<not> MOCK_MODE live_world
   \<and> fst (get_vote_store_id demo_vtp live_world) = Inr ''g2''
   \<and> fst (get_all_guid_workspaces demo_vtp (snd (get_vote_store_id demo_vtp live_world))) = Inr [''g1'', ''g2'']"
proof -
  have a: "get_vote_store_id demo_vtp live_world =
    (Inr ''g2'', live_world\<lparr>store := demo_store\<lparr>directory := [(''g1'', ''/ws/g1''), (''g2'', ''/ws/g2'')], unissued := []\<rparr>,
        calls := [GetGenericRoEdfDir, SetupVtpDemoRun ''/opt/VoteTrackerPlus/demo.01'' 3 True]\<rparr>)"
    by (simp add: get_vote_store_id_def seq_defs demo_defs VERBOSITY_def)
  show ?thesis
    using issued_session_is_enumerated [OF _ _ _ a] by (simp add: a) (simp add: demo_defs)
qed

lemma perform_mode: "MOCK_MODE (perform L V r w) = MOCK_MODE w"
proof (cases "MOCK_MODE w")
  case True
  then show ?thesis
    by (cases r)
      (simp_all add: mock_get_vote_store_id mock_get_empty_ballot mock_cast_ballot
        mock_verify_ballot_check mock_tally_election_check get_all_guid_workspaces_def invoke_def
        split: prod.splits)
next
  case False
  then show ?thesis
    by (cases r)
      (simp_all add: live_get_vote_store_id live_get_empty_ballot live_cast_ballot
        live_verify_ballot_check live_tally_election_check get_all_guid_workspaces_def invoke_def
        split: prod.splits sum.splits option.splits)
qed

lemma perform_mock:
  assumes "MOCK_MODE w" and "r \<noteq> GetAllGuidWorkspacesReq"
  shows "perform L V r w = w"
  using assms
  by (cases r)
    (simp_all add: mock_get_vote_store_id mock_get_empty_ballot mock_cast_ballot
      mock_verify_ballot_check mock_tally_election_check)

lemma perform_live:
  assumes "\<not> MOCK_MODE w"
  shows "calls (perform L V r w) \<noteq> calls w"
  using assms
  by (cases r)
    (simp_all add: live_get_vote_store_id live_get_empty_ballot live_cast_ballot
      live_verify_ballot_check live_tally_election_check get_all_guid_workspaces_def invoke_def
      split: prod.splits sum.splits option.splits)

text \<open>
  The flag is never assigned: after any sequence of invocations, failed ones included, it
  has the value it had before. Each of the five endpoints reads it before anything else and
  calls into VoteTrackerPlus exactly when it is not set.
\<close>

lemma perform_all_mode: "MOCK_MODE (perform_all L V rs w) = MOCK_MODE w"
  by (induction rs arbitrary: w) (simp_all add: perform_mode)

lemma endpoints_route_by_flag:
  "r \<noteq> GetAllGuidWorkspacesReq \<Longrightarrow> (calls (perform L V r w) = calls w) = MOCK_MODE w"
  using perform_mock [of w r L V] perform_live [of w L V r] by auto

text \<open>
  C8. The mode flag is one process-wide boolean that every operation reads before routing
  and that no operation changes. The enumeration of the sessions does not read it:
  \<^verbatim>\<open>get_all_guid_workspaces\<close> takes the same route with the flag set and with the flag
  cleared, the call of \<^verbatim>\<open>SetupVtpDemoOperation.get_all_guid_workspaces\<close> and its result,
  where issuing a session calls nothing with the flag set and calls the directory lookup
  and the provisioning with the flag cleared. The flag itself is left as it was.
\<close>

theorem enumeration_ignores_mode_flag:
  "MOCK_MODE mock_world = True
   \<and> MOCK_MODE (mock_world\<lparr>MOCK_MODE := False\<rparr>) = False
   \<and> calls (perform demo_lib demo_vtp GetAllGuidWorkspacesReq mock_world) = [GetAllGuidWorkspaces]
   \<and> calls (perform demo_lib demo_vtp GetAllGuidWorkspacesReq (mock_world\<lparr>MOCK_MODE := False\<rparr>))
        = [GetAllGuidWorkspaces]
   \<and> fst (get_all_guid_workspaces demo_vtp mock_world)
        = fst (get_all_guid_workspaces demo_vtp (mock_world\<lparr>MOCK_MODE := False\<rparr>))
   \<and> calls (perform demo_lib demo_vtp GetVoteStoreId mock_world) = []
   \<and> calls (perform demo_lib demo_vtp GetVoteStoreId (mock_world\<lparr>MOCK_MODE := False\<rparr>))
        = [GetGenericRoEdfDir, SetupVtpDemoRun ''/opt/VoteTrackerPlus/demo.01'' 3 True]
   \<and> MOCK_MODE (perform demo_lib demo_vtp GetAllGuidWorkspacesReq mock_world) = True"
  by (simp add: get_all_guid_workspaces_def get_vote_store_id_def seq_defs demo_defs VERBOSITY_def)

text \<open>
  C9. In live mode the blank ballot is requested with the address
  "123, Main Street, Concord, Massachusetts", the verbosity 3 and \<^verbatim>\<open>return_bb\<close> true on the
  workspace the session identifier resolves to; when it does not resolve, the blank-ballot
  operation is not run. The caller passes the session identifier only: on a given backing
  store the document returned is the same whatever the files, the parsers and the call log.
\<close>

theorem blank_ballot_fixed_address_and_verbosity:
  assumes "\<not> MOCK_MODE w"
  shows "(get_guid_based_edf_dir V g (store w) = (Inr d, rs) \<longrightarrow>
           get_empty_ballot L V g w =
             (fst (cast_ballot_operation V d 3 ''123, Main Street, Concord, Massachusetts'' True rs),
              w\<lparr>store := snd (cast_ballot_operation V d 3 ''123, Main Street, Concord, Massachusetts'' True rs),
                calls := calls w @ [GetGuidBasedEdfDir g,
                  CastBallotRun d 3 ''123, Main Street, Concord, Massachusetts'' True]\<rparr>))
    \<and> (get_guid_based_edf_dir V g (store w) = (Inl e, rs) \<longrightarrow>
           get_empty_ballot L V g w = (Inl e, w\<lparr>store := rs, calls := calls w @ [GetGuidBasedEdfDir g]\<rparr>))
    \<and> (\<not> MOCK_MODE w' \<longrightarrow> store w' = store w \<longrightarrow>
           fst (get_empty_ballot L' V g w') = fst (get_empty_ballot L V g w))"
  using assms
  by (simp add: live_get_empty_ballot VERBOSITY_def ADDRESS_def split: prod.splits sum.splits)

theorem blank_ballot_fixed_address_and_verbosity_witness:
  "\<not> MOCK_MODE live_world
   \<and> get_empty_ballot demo_lib demo_vtp ''g1'' live_world =
       (Inr (PDict [(''workspace'', PStr ''/ws/g1''),
                    (''address'', PStr ''123, Main Street, Concord, Massachusetts''),
                    (''verbosity'', PInt 3)]),
        live_world\<lparr>calls := [GetGuidBasedEdfDir ''g1'',
          CastBallotRun ''/ws/g1'' 3 ''123, Main Street, Concord, Massachusetts'' True]\<rparr>)
   \<and> fst (get_empty_ballot \<lparr>json_loads = (\<lambda>txt. None), csv_rows = (\<lambda>txt. None)\<rparr> demo_vtp ''g1''
         (live_world\<lparr>files := [''mock-data/blank-ballot.json'' \<mapsto> ''{}''], calls := [GetAllGuidWorkspaces]\<rparr>))
       = fst (get_empty_ballot demo_lib demo_vtp ''g1'' live_world)"
  using blank_ballot_fixed_address_and_verbosity [where w = live_world and V = demo_vtp and L = demo_lib and g = "''g1''"
      and d = "''/ws/g1''" and rs = demo_store
      and L' = "\<lparr>json_loads = (\<lambda>txt. None), csv_rows = (\<lambda>txt. None)\<rparr>"
      and w' = "live_world\<lparr>files := [''mock-data/blank-ballot.json'' \<mapsto> ''{}''], calls := [GetAllGuidWorkspaces]\<rparr>"]
  by (simp add: demo_defs)

section \<open>Payload keys\<close>





end
